theory Spec2Isabelle
  imports Main "HOL-Library.Word" "HOL-Library.Monad_Syntax"
begin

unbundle bit_operations_syntax

section \<open>richNPE: data model\<close>

text \<open>
  The agent richNPE (src/unnamed/part_003) rewrites the message of a
  NullPointerException from the opcode at the faulting bytecode index and, for field
  and method accesses, from the member name found in the raw constant pool.

  Bytes are \<open>u1\<close>, two-byte big-endian values are \<open>u2\<close>, as the source's typedefs.
  A C pointer into a buffer is the buffer (a byte list) and an offset into it. A read
  outside the buffer, or outside the static size table, is undefined behaviour in C:
  every function that reads returns an \<open>option\<close>, and \<open>None\<close> is that case.
\<close>

type_synonym u1 = "8 word"
type_synonym u2 = "16 word"
type_synonym jint = "32 word"
type_synonym jlocation = "64 word"

subsection \<open>Constants of the JDK header\<close>

text \<open>
  Modelled from the spec: the header \<open>classfile_constants.h\<close> belongs to the JDK and
  is not under src/. The opcodes the classifier names (section 4.1 of the spec lists
  them: the eight array loads, the eight array stores, arraylength, getfield, putfield,
  the three instance invocations, monitorenter, monitorexit) and the Utf8 tag carry the
  numbers the JVM specification gives them.
\<close>

definition JVM_OPC_iaload :: u1 where "JVM_OPC_iaload = 46"
definition JVM_OPC_laload :: u1 where "JVM_OPC_laload = 47"
definition JVM_OPC_faload :: u1 where "JVM_OPC_faload = 48"
definition JVM_OPC_daload :: u1 where "JVM_OPC_daload = 49"
definition JVM_OPC_aaload :: u1 where "JVM_OPC_aaload = 50"
definition JVM_OPC_baload :: u1 where "JVM_OPC_baload = 51"
definition JVM_OPC_caload :: u1 where "JVM_OPC_caload = 52"
definition JVM_OPC_saload :: u1 where "JVM_OPC_saload = 53"
definition JVM_OPC_iastore :: u1 where "JVM_OPC_iastore = 79"
definition JVM_OPC_lastore :: u1 where "JVM_OPC_lastore = 80"
definition JVM_OPC_fastore :: u1 where "JVM_OPC_fastore = 81"
definition JVM_OPC_dastore :: u1 where "JVM_OPC_dastore = 82"
definition JVM_OPC_aastore :: u1 where "JVM_OPC_aastore = 83"
definition JVM_OPC_bastore :: u1 where "JVM_OPC_bastore = 84"
definition JVM_OPC_castore :: u1 where "JVM_OPC_castore = 85"
definition JVM_OPC_sastore :: u1 where "JVM_OPC_sastore = 86"
definition JVM_OPC_getfield :: u1 where "JVM_OPC_getfield = 180"
definition JVM_OPC_putfield :: u1 where "JVM_OPC_putfield = 181"
definition JVM_OPC_invokevirtual :: u1 where "JVM_OPC_invokevirtual = 182"
definition JVM_OPC_invokespecial :: u1 where "JVM_OPC_invokespecial = 183"
definition JVM_OPC_invokeinterface :: u1 where "JVM_OPC_invokeinterface = 185"
definition JVM_OPC_arraylength :: u1 where "JVM_OPC_arraylength = 190"
definition JVM_OPC_monitorenter :: u1 where "JVM_OPC_monitorenter = 194"
definition JVM_OPC_monitorexit :: u1 where "JVM_OPC_monitorexit = 195"

definition JVM_CONSTANT_Utf8 :: u1 where "JVM_CONSTANT_Utf8 = 1"

lemmas opc_defs =
  JVM_OPC_iaload_def JVM_OPC_laload_def JVM_OPC_faload_def JVM_OPC_daload_def
  JVM_OPC_aaload_def JVM_OPC_baload_def JVM_OPC_caload_def JVM_OPC_saload_def
  JVM_OPC_iastore_def JVM_OPC_lastore_def JVM_OPC_fastore_def JVM_OPC_dastore_def
  JVM_OPC_aastore_def JVM_OPC_bastore_def JVM_OPC_castore_def JVM_OPC_sastore_def
  JVM_OPC_getfield_def JVM_OPC_putfield_def JVM_OPC_invokevirtual_def
  JVM_OPC_invokespecial_def JVM_OPC_invokeinterface_def JVM_OPC_arraylength_def
  JVM_OPC_monitorenter_def JVM_OPC_monitorexit_def

section \<open>Opcode classifier\<close>

text \<open>
  \<open>get_exception_message\<close>: the \<open>switch\<close> of the source, one branch per \<open>case\<close>
  label in the source's order; \<open>default: return NULL\<close> is \<open>None\<close>.
\<close>

definition get_exception_message :: "u1 \<Rightarrow> string option" where
  "get_exception_message bytecode =
    (if bytecode = JVM_OPC_iaload then Some ''Load from null int array at bci %d''
     else if bytecode = JVM_OPC_laload then Some ''Load from null long array at bci %d''
     else if bytecode = JVM_OPC_faload then Some ''Load from null float array at bci %d''
     else if bytecode = JVM_OPC_daload then Some ''Load from null double array at bci %d''
     else if bytecode = JVM_OPC_aaload then Some ''Load from null Object array at bci %d''
     else if bytecode = JVM_OPC_baload then Some ''Load from null byte/boolean array at bci %d''
     else if bytecode = JVM_OPC_caload then Some ''Load from null char array at bci %d''
     else if bytecode = JVM_OPC_saload then Some ''Load from null short array at bci %d''
     else if bytecode = JVM_OPC_iastore then Some ''Store into null int array at bci %d''
     else if bytecode = JVM_OPC_lastore then Some ''Store into null long array at bci %d''
     else if bytecode = JVM_OPC_fastore then Some ''Store into null float array at bci %d''
     else if bytecode = JVM_OPC_dastore then Some ''Store into null double array at bci %d''
     else if bytecode = JVM_OPC_aastore then Some ''Store into null Object array at bci %d''
     else if bytecode = JVM_OPC_bastore then Some ''Store into null byte/boolean array at bci %d''
     else if bytecode = JVM_OPC_castore then Some ''Store into null char array at bci %d''
     else if bytecode = JVM_OPC_sastore then Some ''Store into null short array at bci %d''
     else if bytecode = JVM_OPC_arraylength then Some ''Get .length of null array''
     else if bytecode = JVM_OPC_getfield then Some ''Get field '%s' of null object at bci %d''
     else if bytecode = JVM_OPC_putfield then Some ''Put field '%s' of null object at bci %d''
     else if bytecode = JVM_OPC_invokevirtual
          then Some ''Called method '%s' on null object at bci %d''
     else if bytecode = JVM_OPC_invokespecial
          then Some ''Called method '%s' on null object at bci %d''
     else if bytecode = JVM_OPC_invokeinterface
          then Some ''Called method '%s' on null object at bci %d''
     else if bytecode = JVM_OPC_monitorenter then Some ''Synchronized on null monitor at bci %d''
     else if bytecode = JVM_OPC_monitorexit then Some ''Synchronized on null monitor at bci %d''
     else None)"

text \<open>The opcode sets the claims speak about.\<close>

definition array_load_opcodes :: "u1 set" where
  "array_load_opcodes =
    {JVM_OPC_iaload, JVM_OPC_laload, JVM_OPC_faload, JVM_OPC_daload,
     JVM_OPC_aaload, JVM_OPC_baload, JVM_OPC_caload, JVM_OPC_saload}"

definition array_store_opcodes :: "u1 set" where
  "array_store_opcodes =
    {JVM_OPC_iastore, JVM_OPC_lastore, JVM_OPC_fastore, JVM_OPC_dastore,
     JVM_OPC_aastore, JVM_OPC_bastore, JVM_OPC_castore, JVM_OPC_sastore}"

definition symbol_opcodes :: "u1 set" where
  "symbol_opcodes =
    {JVM_OPC_getfield, JVM_OPC_putfield,
     JVM_OPC_invokevirtual, JVM_OPC_invokespecial, JVM_OPC_invokeinterface}"

definition non_symbol_opcodes :: "u1 set" where
  "non_symbol_opcodes =
    array_load_opcodes \<union> array_store_opcodes \<union>
    {JVM_OPC_arraylength, JVM_OPC_monitorenter, JVM_OPC_monitorexit}"

section \<open>Constant-pool walker\<close>

text \<open>\<open>bytes[k]\<close> for a pointer \<open>bytes\<close> at offset \<open>p\<close> of the buffer \<open>buf\<close>.\<close>

definition read_u1 :: "u1 list \<Rightarrow> nat \<Rightarrow> u1 option" where
  "read_u1 buf p = (if p < length buf then Some (buf ! p) else None)"

text \<open>\<open>get_u2\<close>: \<open>bytes[0] << 8 | bytes[1]\<close>, converted to \<open>u2\<close>.\<close>

definition get_u2 :: "u1 list \<Rightarrow> nat \<Rightarrow> u2 option" where
  "get_u2 buf p =
    do { b0 \<leftarrow> read_u1 buf p;
         b1 \<leftarrow> read_u1 buf (p + 1);
         Some (push_bit 8 (ucast b0) OR ucast b1) }"

text \<open>The static table of \<open>get_cpool_at\<close>, nineteen entries for the tags 0 to 18.\<close>

definition cp_item_size :: "u1 list" where
  "cp_item_size = [0, 3, 0, 5, 5, 9, 9, 3, 3, 5, 5, 5, 5, 4, 3, 5, 5, 3, 3]"

text \<open>
  One pass of the loop body: read the tag at \<open>cpool\<close>, advance \<open>cpool\<close> by
  \<open>3 + get_u2(cpool + 1)\<close> for a Utf8 tag and by \<open>cp_item_size[tag]\<close> otherwise.
  A tag of 19 or more indexes past the table.
\<close>

definition cpool_advance :: "u1 list \<Rightarrow> nat \<Rightarrow> nat option" where
  "cpool_advance cpool p =
    do { tag \<leftarrow> read_u1 cpool p;
         if tag = JVM_CONSTANT_Utf8
         then do { n \<leftarrow> get_u2 cpool (p + 1); Some (p + (3 + unat n)) }
         else do { sz \<leftarrow> read_u1 cp_item_size (unat tag); Some (p + unat sz) } }"

text \<open>The loop \<open>for (unsigned int i = 1; i < index; i++)\<close>.\<close>

function get_cpool_at_loop :: "u1 list \<Rightarrow> nat \<Rightarrow> nat \<Rightarrow> nat \<Rightarrow> nat option" where
  "get_cpool_at_loop cpool p i index =
    (if i < index
     then (case cpool_advance cpool p of
             None \<Rightarrow> None
           | Some p' \<Rightarrow> get_cpool_at_loop cpool p' (i + 1) index)
     else Some p)"
  by pat_completeness auto
termination
  by (relation "measure (\<lambda>(cpool, p, i, index). index - i)") auto

declare get_cpool_at_loop.simps [simp del]

text \<open>\<open>get_cpool_at(cpool, index)\<close>, the pointer \<open>cpool\<close> given as the offset \<open>p\<close>.\<close>

definition get_cpool_at :: "u1 list \<Rightarrow> nat \<Rightarrow> u2 \<Rightarrow> nat option" where
  "get_cpool_at cpool p index = get_cpool_at_loop cpool p 1 (unat index)"

section \<open>Symbol resolver\<close>

text \<open>\<open>memcpy(result, src, n)\<close>: the \<open>n\<close> bytes of the buffer from offset \<open>p\<close>.\<close>

definition memcpy_from :: "u1 list \<Rightarrow> nat \<Rightarrow> nat \<Rightarrow> u1 list option" where
  "memcpy_from buf p n = (if p + n \<le> length buf then Some (take n (drop p buf)) else None)"

text \<open>
  The result buffer, \<open>name_length\<close> copied bytes and a terminating zero, read as a C
  string: the bytes before the first zero byte, as characters.
\<close>

definition c_string :: "u1 list \<Rightarrow> string" where
  "c_string bs = map (\<lambda>b. char_of (unat b)) (takeWhile (\<lambda>b. b \<noteq> 0) bs)"

text \<open>
  Lines 89 to 96 of \<open>get_name_from_cpool\<close>: the operand after the opcode at
  \<open>bytecodes + pc\<close> indexes a Fieldref or Methodref, whose bytes 3 and 4 index a
  NameAndType, whose bytes 1 and 2 index a Utf8; its payload is copied.
\<close>

definition resolve_name :: "u1 list \<Rightarrow> u1 list \<Rightarrow> nat \<Rightarrow> string option" where
  "resolve_name cpool bytecodes pc =
    do { operand \<leftarrow> get_u2 bytecodes (pc + 1);
         ref \<leftarrow> get_cpool_at cpool 0 operand;
         nt_index \<leftarrow> get_u2 cpool (ref + 3);
         name_and_type \<leftarrow> get_cpool_at cpool 0 nt_index;
         name_index \<leftarrow> get_u2 cpool (name_and_type + 1);
         name \<leftarrow> get_cpool_at cpool 0 name_index;
         name_length \<leftarrow> get_u2 cpool (name + 1);
         result \<leftarrow> memcpy_from cpool (name + 3) (unat name_length);
         Some (c_string result) }"

section \<open>The host and the callback's effects\<close>

text \<open>
  What the JVM answers during one callback: whether the exception is an instance of
  the cached class, and the buffers of \<open>GetBytecodes\<close> and \<open>GetConstantPool\<close>,
  \<open>None\<close> when the call returns an error code. \<open>bytecode_count\<close> is the length of
  the bytecode array, as JVMTI documents.
\<close>

record jvm =
  IsInstanceOf :: bool
  GetBytecodes :: "u1 list option"
  GetConstantPool :: "u1 list option"

text \<open>The static handles that \<open>VMInit\<close> caches; \<open>None\<close> is \<open>NULL\<close>.\<close>

record agent =
  NullPointerException :: "nat option"
  detailMessage :: "nat option"

text \<open>
  The effects of a callback: the value of the exception's \<open>detailMessage\<close> field
  (\<open>None\<close> is a null reference) and the host functions called so far, latest last.
\<close>

datatype host_call =
    Call_IsInstanceOf
  | Call_GetBytecodes
  | Call_GetMethodDeclaringClass
  | Call_GetConstantPool
  | Call_Deallocate_cpool
  | Call_NewStringUTF string
  | Call_SetObjectField string
  | Call_Deallocate_bytecodes

record world =
  message_field :: "string option"
  host_calls :: "host_call list"

definition called :: "host_call \<Rightarrow> world \<Rightarrow> world" where
  "called c w = w\<lparr>host_calls := host_calls w @ [c]\<rparr>"

text \<open>\<open>env->SetObjectField(exception, detailMessage, env->NewStringUTF(buf))\<close>.\<close>

definition set_detail_message :: "string \<Rightarrow> world \<Rightarrow> world" where
  "set_detail_message buf w =
    (called (Call_SetObjectField buf) (called (Call_NewStringUTF buf) w))
      \<lparr>message_field := Some buf\<rparr>"

text \<open>
  \<open>get_name_from_cpool\<close> with its host calls: a failing \<open>GetConstantPool\<close> gives
  the copy of \<open>"<unknown>"\<close> before any byte is read; otherwise the pool is walked and
  deallocated.
\<close>

definition get_name_from_cpool :: "jvm \<Rightarrow> u1 list \<Rightarrow> nat \<Rightarrow> world \<Rightarrow> (string \<times> world) option" where
  "get_name_from_cpool h bytecodes pc w =
    (let w1 = called Call_GetConstantPool (called Call_GetMethodDeclaringClass w) in
     case GetConstantPool h of
       None \<Rightarrow> Some (''<unknown>'', w1)
     | Some cpool \<Rightarrow>
         do { result \<leftarrow> resolve_name cpool bytecodes pc;
              Some (result, called Call_Deallocate_cpool w1) })"

section \<open>Message formatter\<close>

subsection \<open>The C library's formatting\<close>

text \<open>
  The conversions the templates use: \<open>%s\<close> takes a string argument, \<open>%d\<close> an
  \<open>int\<close> argument printed in decimal. Any other use of \<open>%\<close>, or an argument of the
  wrong kind, is undefined in C and \<open>None\<close> here; arguments left over are ignored.
\<close>

datatype fmt_arg = ArgStr string | ArgInt int

definition digit_char :: "nat \<Rightarrow> char" where
  "digit_char d = ''0123456789'' ! d"

function dec_nat :: "nat \<Rightarrow> string" where
  "dec_nat n = (if n < 10 then [digit_char n] else dec_nat (n div 10) @ [digit_char (n mod 10)])"
  by pat_completeness auto
termination
  by (relation "measure (\<lambda>n. n)") auto

declare dec_nat.simps [simp del]

definition dec_int :: "int \<Rightarrow> string" where
  "dec_int i = (if i < 0 then CHR ''-'' # dec_nat (nat (- i)) else dec_nat (nat i))"

fun format :: "string \<Rightarrow> fmt_arg list \<Rightarrow> string option" where
  "format [] args = Some []"
| "format [c] args = (if c = CHR ''%'' then None else Some [c])"
| "format (c # d # rest) args =
    (if c = CHR ''%''
     then (if d = CHR ''s''
           then (case args of
                   ArgStr s # args' \<Rightarrow> map_option (\<lambda>r. s @ r) (format rest args')
                 | _ \<Rightarrow> None)
           else if d = CHR ''d''
           then (case args of
                   ArgInt i # args' \<Rightarrow> map_option (\<lambda>r. dec_int i @ r) (format rest args')
                 | _ \<Rightarrow> None)
           else None)
     else map_option (\<lambda>r. c # r) (format (d # rest) args))"

text \<open>
  \<open>snprintf(buf, n, fmt, ...)\<close> stores at most \<open>n - 1\<close> characters and the
  terminator. \<open>sprintf(buf, fmt, ...)\<close> stores the whole output and the terminator;
  with a buffer of \<open>cap\<close> bytes an output of \<open>cap\<close> characters or more writes past
  the buffer, which is \<open>None\<close>.
\<close>

definition snprintf :: "nat \<Rightarrow> string \<Rightarrow> fmt_arg list \<Rightarrow> string option" where
  "snprintf n fmt args = map_option (take (n - 1)) (format fmt args)"

definition sprintf :: "nat \<Rightarrow> string \<Rightarrow> fmt_arg list \<Rightarrow> string option" where
  "sprintf cap fmt args =
    do { out \<leftarrow> format fmt args; if length out < cap then Some out else None }"

text \<open>\<open>strstr(haystack, needle) != NULL\<close>.\<close>

fun strstr :: "string \<Rightarrow> string \<Rightarrow> bool" where
  "strstr [] needle = (needle = [])"
| "strstr (c # cs) needle = (take (length needle) (c # cs) = needle \<or> strstr cs needle)"

subsection \<open>Formatting into the buffer\<close>

text \<open>The cast \<open>(int) location\<close> of the 64-bit \<open>jlocation\<close>.\<close>

definition int_of_location :: "jlocation \<Rightarrow> int" where
  "int_of_location location = sint (ucast location :: jint)"

text \<open>
  Lines 133 to 140 of \<open>ExceptionCallback\<close>, with \<open>char buf[400]\<close>: a template with
  \<open>%s\<close> fetches the name (\<open>fetch_name\<close>, evaluated on this branch only) and is
  rendered by \<open>snprintf\<close> with \<open>sizeof(buf)\<close>; any other template is rendered by
  \<open>sprintf\<close>. The result is the content of \<open>buf\<close>.
\<close>

definition format_message ::
  "string \<Rightarrow> (string \<times> world) option \<Rightarrow> jlocation \<Rightarrow> world \<Rightarrow> (string \<times> world) option" where
  "format_message message fetch_name location w =
    (if strstr message ''%s''
     then do { (name, w') \<leftarrow> fetch_name;
               buf \<leftarrow> snprintf 400 message [ArgStr name, ArgInt (int_of_location location)];
               Some (buf, w') }
     else do { buf \<leftarrow> sprintf 400 message [ArgInt (int_of_location location)];
               Some (buf, w) })"

section \<open>Exception interceptor\<close>

text \<open>
  \<open>ExceptionCallback\<close>. The result is the world after the callback; \<open>None\<close> is
  undefined behaviour inside it (a read outside a buffer or a write past \<open>buf\<close>).
  Allocation is taken to succeed: \<open>malloc\<close> and \<open>NewStringUTF\<close> return their
  object, and \<open>GetMethodDeclaringClass\<close>, whose result the source does not test,
  returns the holder.
\<close>

definition ExceptionCallback :: "agent \<Rightarrow> jvm \<Rightarrow> jlocation \<Rightarrow> world \<Rightarrow> world option" where
  "ExceptionCallback ag h location w =
    (if NullPointerException ag = None \<or> detailMessage ag = None then Some w
     else let w1 = called Call_IsInstanceOf w in
       if \<not> IsInstanceOf h then Some w1
       else let w2 = called Call_GetBytecodes w1 in
         case GetBytecodes h of
           None \<Rightarrow> Some w2
         | Some bytecodes \<Rightarrow>
             if 0 \<le> sint location \<and> sint location < int (length bytecodes)
             then (case get_exception_message (bytecodes ! nat (sint location)) of
                     None \<Rightarrow> Some (called Call_Deallocate_bytecodes w2)
                   | Some message \<Rightarrow>
                       do { (buf, w3) \<leftarrow>
                              format_message message
                                (get_name_from_cpool h bytecodes (nat (sint location)) w2)
                                location w2;
                            Some (called Call_Deallocate_bytecodes (set_detail_message buf w3)) })
             else Some (called Call_Deallocate_bytecodes w2))"

section \<open>The constant pool of the class-file format\<close>

text \<open>
  The data model of the specification (section 3), for comparison with the walker:
  a pool is a sequence of tagged entries, Utf8 with a length and bytes, Fieldref and
  Methodref with a class index and a name-and-type index, NameAndType with a name index
  and a descriptor index, and fixed-size kinds. Logical indices start at 1, and a long
  or double entry consumes two consecutive logical indices, the second left unused.
  The kinds are those of the tags 1 to 12; the kinds that the class-file format added
  for method handles and invokedynamic (tags 15 to 18) are left out of the comparison.
\<close>

datatype cp_info =
    CONSTANT_Utf8 "u1 list"
  | CONSTANT_Integer "32 word"
  | CONSTANT_Float "32 word"
  | CONSTANT_Long "64 word"
  | CONSTANT_Double "64 word"
  | CONSTANT_Class u2
  | CONSTANT_String u2
  | CONSTANT_Fieldref u2 u2
  | CONSTANT_Methodref u2 u2
  | CONSTANT_InterfaceMethodref u2 u2
  | CONSTANT_NameAndType u2 u2

text \<open>The logical indices an entry consumes.\<close>

fun cp_width :: "cp_info \<Rightarrow> nat" where
  "cp_width (CONSTANT_Long v) = 2"
| "cp_width (CONSTANT_Double v) = 2"
| "cp_width e = 1"

text \<open>The entry at a logical index; index 0 and the second index of a long or double hold none.\<close>

fun cp_entry_at :: "cp_info list \<Rightarrow> nat \<Rightarrow> cp_info option" where
  "cp_entry_at [] i = None"
| "cp_entry_at (e # es) i =
    (if i = 1 then Some e
     else if i \<le> cp_width e then None
     else cp_entry_at es (i - cp_width e))"

text \<open>The declared name of the field or method that a Fieldref or Methodref index denotes.\<close>

definition utf8_at :: "cp_info list \<Rightarrow> u2 \<Rightarrow> string option" where
  "utf8_at pool i =
    (case cp_entry_at pool (unat i) of
       Some (CONSTANT_Utf8 bs) \<Rightarrow> Some (map (\<lambda>b. char_of (unat b)) bs)
     | _ \<Rightarrow> None)"

definition name_of_name_and_type :: "cp_info list \<Rightarrow> u2 \<Rightarrow> string option" where
  "name_of_name_and_type pool i =
    (case cp_entry_at pool (unat i) of
       Some (CONSTANT_NameAndType name_index descriptor_index) \<Rightarrow> utf8_at pool name_index
     | _ \<Rightarrow> None)"

definition declared_name :: "cp_info list \<Rightarrow> u2 \<Rightarrow> string option" where
  "declared_name pool i =
    (case cp_entry_at pool (unat i) of
       Some (CONSTANT_Fieldref class_index nt) \<Rightarrow> name_of_name_and_type pool nt
     | Some (CONSTANT_Methodref class_index nt) \<Rightarrow> name_of_name_and_type pool nt
     | Some (CONSTANT_InterfaceMethodref class_index nt) \<Rightarrow> name_of_name_and_type pool nt
     | _ \<Rightarrow> None)"

text \<open>The serialized form: big-endian fields after the tag byte.\<close>

definition u2_bytes :: "u2 \<Rightarrow> u1 list" where
  "u2_bytes x = [ucast (drop_bit 8 x), ucast x]"

definition u4_bytes :: "32 word \<Rightarrow> u1 list" where
  "u4_bytes x = [ucast (drop_bit 24 x), ucast (drop_bit 16 x), ucast (drop_bit 8 x), ucast x]"

definition u8_bytes :: "64 word \<Rightarrow> u1 list" where
  "u8_bytes x = u4_bytes (ucast (drop_bit 32 x)) @ u4_bytes (ucast x)"

fun cp_info_bytes :: "cp_info \<Rightarrow> u1 list" where
  "cp_info_bytes (CONSTANT_Utf8 bs) = 1 # u2_bytes (word_of_nat (length bs)) @ bs"
| "cp_info_bytes (CONSTANT_Integer v) = 3 # u4_bytes v"
| "cp_info_bytes (CONSTANT_Float v) = 4 # u4_bytes v"
| "cp_info_bytes (CONSTANT_Long v) = 5 # u8_bytes v"
| "cp_info_bytes (CONSTANT_Double v) = 6 # u8_bytes v"
| "cp_info_bytes (CONSTANT_Class name_index) = 7 # u2_bytes name_index"
| "cp_info_bytes (CONSTANT_String string_index) = 8 # u2_bytes string_index"
| "cp_info_bytes (CONSTANT_Fieldref c nt) = 9 # u2_bytes c @ u2_bytes nt"
| "cp_info_bytes (CONSTANT_Methodref c nt) = 10 # u2_bytes c @ u2_bytes nt"
| "cp_info_bytes (CONSTANT_InterfaceMethodref c nt) = 11 # u2_bytes c @ u2_bytes nt"
| "cp_info_bytes (CONSTANT_NameAndType n d) = 12 # u2_bytes n @ u2_bytes d"

definition cpool_bytes :: "cp_info list \<Rightarrow> u1 list" where
  "cpool_bytes pool = concat (map cp_info_bytes pool)"

text \<open>The bytes of a name, for writing pools down.\<close>

definition utf8 :: "string \<Rightarrow> cp_info" where
  "utf8 s = CONSTANT_Utf8 (map of_char s)"

text \<open>
  The record offset of the entry at a logical index: the serialized lengths of the
  entries before it, added up.
\<close>

fun cp_offset :: "cp_info list \<Rightarrow> nat \<Rightarrow> nat option" where
  "cp_offset [] i = None"
| "cp_offset (e # es) i =
    (if i = 1 then Some 0
     else if i \<le> cp_width e then None
     else map_option (\<lambda>p. length (cp_info_bytes e) + p) (cp_offset es (i - cp_width e)))"

subsection \<open>Pools the walker's accounting covers\<close>

text \<open>
  An entry that takes one logical index and whose Utf8 length fits the two length
  bytes; and an entry whose Utf8 bytes contain no zero byte, as the class-file
  format's modified UTF-8 guarantees.
\<close>

definition single_index_entry :: "cp_info \<Rightarrow> bool" where
  "single_index_entry e =
    (cp_width e = 1 \<and> (case e of CONSTANT_Utf8 bs \<Rightarrow> length bs < 65536 | _ \<Rightarrow> True))"

definition no_zero_byte :: "cp_info \<Rightarrow> bool" where
  "no_zero_byte e = (case e of CONSTANT_Utf8 bs \<Rightarrow> 0 \<notin> set bs | _ \<Rightarrow> True)"

subsection \<open>Two example classes\<close>

text \<open>
  A class that calls \<open>Foo.get()\<close>: the Methodref is entry 6. The method's code has
  the invokevirtual at offset 19.
\<close>

definition pool_get :: "cp_info list" where
  "pool_get =
    [utf8 ''Foo'', CONSTANT_Class 1, utf8 ''get'', utf8 ''()V'',
     CONSTANT_NameAndType 3 4, CONSTANT_Methodref 2 5]"

definition code_get :: "u1 list" where
  "code_get = replicate 19 0 @ [JVM_OPC_invokevirtual, 0, 6]"

text \<open>
  A class with a long constant at index 1 (and 2), which calls \<open>Foo.get()\<close> through
  the Methodref at index 8 and \<open>Foo.put()\<close> through the one at index 9, and names
  the class \<open>Bar\<close> at index 12.
\<close>

definition pool_wide :: "cp_info list" where
  "pool_wide =
    [CONSTANT_Long 42, utf8 ''Foo'', utf8 ''get'', utf8 ''()V'',
     CONSTANT_NameAndType 4 5, CONSTANT_Class 3, CONSTANT_Methodref 7 6,
     CONSTANT_Methodref 7 11, utf8 ''put'', CONSTANT_NameAndType 10 5,
     CONSTANT_Class 13, utf8 ''Bar'', utf8 ''baz'']"

definition code_wide :: "u1 list" where
  "code_wide = replicate 19 0 @ [JVM_OPC_invokevirtual, 0, 8]"

subsection \<open>The templates by kind\<close>

text \<open>
  The templates of the classifier without the \<open>%s\<close> conversion, and those with it.
\<close>

definition non_symbol_templates :: "string list" where
  "non_symbol_templates =
    [''Load from null int array at bci %d'',
     ''Load from null long array at bci %d'',
     ''Load from null float array at bci %d'',
     ''Load from null double array at bci %d'',
     ''Load from null Object array at bci %d'',
     ''Load from null byte/boolean array at bci %d'',
     ''Load from null char array at bci %d'',
     ''Load from null short array at bci %d'',
     ''Store into null int array at bci %d'',
     ''Store into null long array at bci %d'',
     ''Store into null float array at bci %d'',
     ''Store into null double array at bci %d'',
     ''Store into null Object array at bci %d'',
     ''Store into null byte/boolean array at bci %d'',
     ''Store into null char array at bci %d'',
     ''Store into null short array at bci %d'',
     ''Get .length of null array'',
     ''Synchronized on null monitor at bci %d'']"

definition symbol_templates :: "string list" where
  "symbol_templates =
    [''Get field '%s' of null object at bci %d'',
     ''Put field '%s' of null object at bci %d'',
     ''Called method '%s' on null object at bci %d'']"

section \<open>Properties of the classifier and the walker\<close>

lemma get_cpool_at_loop_done:
  "index \<le> i \<Longrightarrow> get_cpool_at_loop cpool p i index = Some p"
  by (subst get_cpool_at_loop.simps) simp

lemma get_cpool_at_loop_step:
  "i < index \<Longrightarrow> cpool_advance cpool p = Some p' \<Longrightarrow>
     get_cpool_at_loop cpool p i index = get_cpool_at_loop cpool p' (i + 1) index"
  by (subst get_cpool_at_loop.simps) simp

lemma u2_join: "(push_bit 8 (ucast (ucast (drop_bit 8 x) :: u1)) OR ucast (ucast x :: u1) :: u2) = x"
  by (rule bit_word_eqI) (auto simp add: bit_simps)

lemma read_u1_append:
  "k < length bs \<Longrightarrow> read_u1 (pre @ bs @ post) (length pre + k) = Some (bs ! k)"
  by (simp add: read_u1_def nth_append)

lemma get_u2_at:
  "take 2 (drop k bs) = u2_bytes x \<Longrightarrow> get_u2 (pre @ bs @ post) (length pre + k) = Some x"
proof -
  assume a: "take 2 (drop k bs) = u2_bytes x"
  then have len: "k + 1 < length bs"
    by (cases "k + 1 < length bs") (auto simp add: u2_bytes_def dest!: arg_cong [where f = length])
  from a have "bs ! k = ucast (drop_bit 8 x)" "bs ! (k + 1) = ucast x"
    using len nth_take [of 0 2 "drop k bs"] nth_take [of 1 2 "drop k bs"]
    by (simp_all add: u2_bytes_def)
  with len show ?thesis
    using read_u1_append [of k bs pre post] read_u1_append [of "k + 1" bs pre post]
    by (simp add: get_u2_def u2_join add.assoc)
qed


lemma unat_utf8_length: "n < 65536 \<Longrightarrow> unat (word_of_nat n :: u2) = n"
  by (simp add: unat_of_nat)

lemma length_cp_info_bytes:
  "length (cp_info_bytes e) =
    (case e of
       CONSTANT_Utf8 bs \<Rightarrow> 3 + length bs
     | CONSTANT_Integer v \<Rightarrow> 5 | CONSTANT_Float v \<Rightarrow> 5
     | CONSTANT_Long v \<Rightarrow> 9 | CONSTANT_Double v \<Rightarrow> 9
     | CONSTANT_Class n \<Rightarrow> 3 | CONSTANT_String n \<Rightarrow> 3
     | _ \<Rightarrow> 5)"
  by (cases e) (simp_all add: u2_bytes_def u4_bytes_def u8_bytes_def)

lemma cpool_advance_single:
  assumes "single_index_entry e"
  shows "cpool_advance (pre @ cp_info_bytes e @ post) (length pre) =
           Some (length pre + length (cp_info_bytes e))"
proof -
  have tag: "read_u1 (pre @ cp_info_bytes e @ post) (length pre) = Some (hd (cp_info_bytes e))"
    using read_u1_append [of 0 "cp_info_bytes e" pre post]
    by (cases e) (simp_all add: hd_conv_nth)
  show ?thesis
  proof (cases e)
    case (CONSTANT_Utf8 bs)
    with assms have len: "length bs < 65536" by (simp add: single_index_entry_def)
    have "get_u2 (pre @ cp_info_bytes e @ post) (length pre + 1) = Some (word_of_nat (length bs))"
      by (rule get_u2_at) (simp add: CONSTANT_Utf8 u2_bytes_def)
    with tag len CONSTANT_Utf8 show ?thesis
      by (simp add: cpool_advance_def JVM_CONSTANT_Utf8_def unat_utf8_length u2_bytes_def)
  qed (use assms tag in \<open>simp_all add: cpool_advance_def JVM_CONSTANT_Utf8_def
        single_index_entry_def read_u1_def cp_item_size_def u2_bytes_def u4_bytes_def\<close>)
qed

lemma cpool_bytes_Cons: "cpool_bytes (e # es) = cp_info_bytes e @ cpool_bytes es"
  by (simp add: cpool_bytes_def)

lemma cpool_bytes_Nil: "cpool_bytes [] = []"
  by (simp add: cpool_bytes_def)

lemma loop_single_entries:
  "list_all single_index_entry pool \<Longrightarrow> index - i \<le> length pool \<Longrightarrow>
     get_cpool_at_loop (pre @ cpool_bytes pool @ post) (length pre) i index =
       Some (length pre + length (cpool_bytes (take (index - i) pool)))"
proof (induction pool arbitrary: pre i)
  case Nil
  then have "index \<le> i" by simp
  then show ?case by (simp add: get_cpool_at_loop_done cpool_bytes_Nil)
next
  case (Cons e es)
  show ?case
  proof (cases "i < index")
    case False
    then show ?thesis by (simp add: get_cpool_at_loop_done cpool_bytes_Nil)
  next
    case True
    from Cons.prems have e: "single_index_entry e" and es: "list_all single_index_entry es"
      by simp_all
    from True Cons.prems(2) have rest: "index - (i + 1) \<le> length es" by simp
    from True obtain k where k: "index - i = Suc k" "index - (i + 1) = k"
      by (cases "index - i") auto
    then have unfold_take: "take (index - i) (e # es) = e # take (index - (i + 1)) es"
      by simp
    have adv: "cpool_advance (pre @ cpool_bytes (e # es) @ post) (length pre) =
        Some (length pre + length (cp_info_bytes e))"
      using cpool_advance_single [OF e, of pre "cpool_bytes es @ post"]
      by (simp add: cpool_bytes_Cons)
    have "get_cpool_at_loop ((pre @ cp_info_bytes e) @ cpool_bytes es @ post)
            (length (pre @ cp_info_bytes e)) (i + 1) index =
          Some (length (pre @ cp_info_bytes e) + length (cpool_bytes (take (index - (i + 1)) es)))"
      by (rule Cons.IH [OF es rest])
    then have "get_cpool_at_loop (pre @ cpool_bytes (e # es) @ post)
            (length pre + length (cp_info_bytes e)) (i + 1) index =
          Some (length pre + length (cpool_bytes (take (index - i) (e # es))))"
      by (simp add: cpool_bytes_Cons unfold_take add.assoc)
    with get_cpool_at_loop_step [OF True adv] show ?thesis by simp
  qed
qed

lemma cp_single_lookup:
  "list_all single_index_entry pool \<Longrightarrow> 1 \<le> i \<Longrightarrow> i \<le> length pool \<Longrightarrow>
     cp_entry_at pool i = Some (pool ! (i - 1)) \<and>
     cp_offset pool i = Some (length (cpool_bytes (take (i - 1) pool)))"
proof (induction pool arbitrary: i)
  case Nil
  then show ?case by simp
next
  case (Cons e es)
  show ?case
  proof (cases "i = 1")
    case True
    then show ?thesis by (simp add: cpool_bytes_Nil)
  next
    case False
    from Cons.prems(1) have e: "single_index_entry e" and es: "list_all single_index_entry es"
      by simp_all
    from e have w: "cp_width e = 1" by (simp add: single_index_entry_def)
    from False Cons.prems(2,3) have i: "1 \<le> i - 1" "i - 1 \<le> length es" by simp_all
    from Cons.IH [OF es i] False Cons.prems(2) w show ?thesis
      by (cases i) (auto simp add: cpool_bytes_Cons take_Cons' nth_Cons')
  qed
qed

lemma walker_single_index:
  assumes "list_all single_index_entry pool" and "1 \<le> unat index" and "unat index \<le> length pool"
  shows "get_cpool_at (cpool_bytes pool @ post) 0 index = cp_offset pool (unat index)"
proof -
  from assms(3) have "unat index - 1 \<le> length pool" by simp
  from loop_single_entries [OF assms(1) this, of "[]" post]
  have "get_cpool_at_loop (cpool_bytes pool @ post) 0 1 (unat index) =
      Some (length (cpool_bytes (take (unat index - 1) pool)))"
    by simp
  with cp_single_lookup [OF assms] show ?thesis
    by (simp add: get_cpool_at_def)
qed

lemma cpool_bytes_append: "cpool_bytes (xs @ ys) = cpool_bytes xs @ cpool_bytes ys"
  by (simp add: cpool_bytes_def)

lemma cp_entry_at_range:
  "list_all single_index_entry pool \<Longrightarrow> cp_entry_at pool i = Some e \<Longrightarrow>
     1 \<le> i \<and> i \<le> length pool"
proof (induction pool arbitrary: i)
  case Nil
  then show ?case by simp
next
  case (Cons x xs)
  from Cons.prems(1) have sx: "single_index_entry x" and xs: "list_all single_index_entry xs"
    by simp_all
  from sx have x: "cp_width x = 1" by (simp add: single_index_entry_def)
  show ?case
  proof (cases "i = 1")
    case True
    then show ?thesis by simp
  next
    case False
    with Cons.prems(2) x have "1 < i" and "cp_entry_at xs (i - 1) = Some e"
      by (auto split: if_splits)
    with Cons.IH [OF xs, of "i - 1"] have "i - 1 \<le> length xs" by simp
    with \<open>1 < i\<close> have "i \<le> Suc (length xs)" by arith
    with \<open>1 < i\<close> show ?thesis by simp
  qed
qed

lemma entry_located:
  assumes "list_all single_index_entry pool" and "cp_entry_at pool (unat i) = Some e"
  shows "\<exists>pre post. cpool_bytes pool = pre @ cp_info_bytes e @ post \<and>
           get_cpool_at (cpool_bytes pool) 0 i = Some (length pre) \<and> e \<in> set pool"
proof -
  from cp_entry_at_range [OF assms] have r: "1 \<le> unat i" "unat i \<le> length pool" by simp_all
  let ?n = "unat i - 1"
  from r have n: "?n < length pool" by simp
  from cp_single_lookup [OF assms(1) r] assms(2)
  have e: "e = pool ! ?n"
    and off: "cp_offset pool (unat i) = Some (length (cpool_bytes (take ?n pool)))"
    by simp_all
  from id_take_nth_drop [OF n] e
  have "cpool_bytes pool = cpool_bytes (take ?n pool @ e # drop (Suc ?n) pool)" by simp
  then have split: "cpool_bytes pool =
      cpool_bytes (take ?n pool) @ cp_info_bytes e @ cpool_bytes (drop (Suc ?n) pool)"
    by (simp add: cpool_bytes_append cpool_bytes_Cons)
  from walker_single_index [OF assms(1) r, of "[]"] off
  have "get_cpool_at (cpool_bytes pool) 0 i = Some (length (cpool_bytes (take ?n pool)))"
    by simp
  moreover from n e have "e \<in> set pool" by simp
  ultimately show ?thesis using split by blast
qed

lemma memcpy_from_at:
  "take n (drop k bs) = payload \<Longrightarrow> k + n \<le> length bs \<Longrightarrow>
     memcpy_from (pre @ bs @ post) (length pre + k) n = Some payload"
  by (auto simp add: memcpy_from_def)

lemma c_string_no_zero: "0 \<notin> set bs \<Longrightarrow> c_string bs = map (\<lambda>b. char_of (unat b)) bs"
proof -
  assume "0 \<notin> set bs"
  then have "takeWhile (\<lambda>b. b \<noteq> 0) bs = bs"
    by (intro takeWhile_eq_all_conv [THEN iffD2]) auto
  then show ?thesis unfolding c_string_def by (rule arg_cong)
qed


subsection \<open>Templates and their rendering\<close>


lemma classify_non_symbol:
  "opc \<in> non_symbol_opcodes \<Longrightarrow>
     \<exists>m. get_exception_message opc = Some m \<and> m \<in> set non_symbol_templates"
  unfolding get_exception_message_def non_symbol_opcodes_def
    array_load_opcodes_def array_store_opcodes_def non_symbol_templates_def
  by (auto simp: opc_defs)

lemma non_symbol_no_percent_s:
  "m \<in> set non_symbol_templates \<Longrightarrow> \<not> strstr m ''%s''"
  unfolding non_symbol_templates_def by auto

lemma symbol_has_percent_s:
  "m \<in> set symbol_templates \<Longrightarrow> strstr m ''%s''"
  unfolding symbol_templates_def by auto

lemma non_symbol_format:
  "m \<in> set non_symbol_templates \<Longrightarrow>
     \<exists>out. format m [ArgInt i] = Some out \<and> length out \<le> 42 + length (dec_int i)"
  unfolding non_symbol_templates_def by auto


lemma symbol_format:
  "m \<in> set symbol_templates \<Longrightarrow> \<exists>out. format m [ArgStr name, ArgInt i] = Some out \<and> out \<noteq> []"
  unfolding symbol_templates_def by auto

lemma classify_symbol:
  "opc \<in> symbol_opcodes \<Longrightarrow>
     \<exists>m. get_exception_message opc = Some m \<and> m \<in> set symbol_templates"
  unfolding get_exception_message_def symbol_opcodes_def symbol_templates_def
  by (auto simp: opc_defs)

lemma length_dec_nat: "0 < k \<Longrightarrow> n < 10 ^ k \<Longrightarrow> length (dec_nat n) \<le> k"
proof (induction n arbitrary: k rule: dec_nat.induct)
  case (1 n)
  show ?case
  proof (cases "n < 10")
    case True
    with "1.prems" show ?thesis by (simp add: dec_nat.simps [of n])
  next
    case False
    from "1.prems" False obtain j where j: "k = Suc j" "0 < j"
      by (cases k; cases "k - 1") auto
    with "1.prems" have "n div 10 < 10 ^ j"
      by (simp add: less_mult_imp_div_less mult.commute)
    with "1.IH" [OF False \<open>0 < j\<close>] have "length (dec_nat (n div 10)) \<le> j" by simp
    with False j show ?thesis by (simp add: dec_nat.simps [of n])
  qed
qed

lemma length_dec_int_location: "length (dec_int (int_of_location location)) \<le> 11"
proof -
  let ?i = "int_of_location location"
  have lo: "- (2 ^ 31) \<le> ?i" and hi: "?i < 2 ^ 31"
    using sint_ge [of "ucast location :: jint"] sint_lt [of "ucast location :: jint"]
    by (simp_all add: int_of_location_def)
  show ?thesis
  proof (cases "?i < 0")
    case True
    with lo have "nat (- ?i) < 10 ^ 10" by simp
    then have "length (dec_nat (nat (- ?i))) \<le> 10" by (rule length_dec_nat [rotated]) simp
    with True show ?thesis by (simp add: dec_int_def)
  next
    case False
    with hi have "nat ?i < 10 ^ 10" by simp
    then have "length (dec_nat (nat ?i)) \<le> 10" by (rule length_dec_nat [rotated]) simp
    with False show ?thesis by (simp add: dec_int_def)
  qed
qed

lemma non_symbol_sprintf:
  assumes "m \<in> set non_symbol_templates"
  shows "\<exists>out. sprintf 400 m [ArgInt (int_of_location location)] = Some out \<and> length out \<le> 53"
proof -
  from non_symbol_format [OF assms] obtain out
    where out: "format m [ArgInt (int_of_location location)] = Some out"
      and len: "length out \<le> 42 + length (dec_int (int_of_location location))" by blast
  from len length_dec_int_location [of location] have "length out \<le> 53" by simp
  with out show ?thesis by (simp add: sprintf_def)
qed

lemma message_field_called [simp]: "message_field (called c w) = message_field w"
  by (simp add: called_def)

subsection \<open>Claims about the classifier and the walker\<close>

text \<open>
  C4. The classifier returns a template for exactly the eight array loads, the eight
  array stores, arraylength, getfield, putfield, invokevirtual, invokespecial,
  invokeinterface, monitorenter and monitorexit; every other opcode gives \<open>None\<close>.
\<close>

theorem classifier_domain:
  "(get_exception_message bytecode \<noteq> None) =
   (bytecode \<in> array_load_opcodes \<union> array_store_opcodes \<union>
      {JVM_OPC_arraylength, JVM_OPC_getfield, JVM_OPC_putfield,
       JVM_OPC_invokevirtual, JVM_OPC_invokespecial, JVM_OPC_invokeinterface,
       JVM_OPC_monitorenter, JVM_OPC_monitorexit})"
  unfolding get_exception_message_def array_load_opcodes_def array_store_opcodes_def
  by simp

text \<open>
  C5. The walker starts at the first record and makes \<open>index - 1\<close> passes, each adding
  the size of the record under the pointer (the table entry of its tag, or 3 plus the
  length for Utf8). It counts one index per record, so behind a long or double entry,
  which takes two indices, the sum is not the offset of the target entry. In
  \<open>pool_wide\<close> the NameAndType at index 6 has its record at byte 27 and the name at
  index 4 has its record at byte 15; the walker returns 32 and 21, the records of the
  indices 7 and 5.
\<close>

theorem walker_offset_behind_long:
  "cp_entry_at pool_wide 6 = Some (CONSTANT_NameAndType 4 5) \<and>
   cp_offset pool_wide 6 = Some 27 \<and>
   get_cpool_at (cpool_bytes pool_wide) 0 6 = Some 32 \<and>
   cp_offset pool_wide 7 = Some 32 \<and>
   cp_entry_at pool_wide 4 = Some (utf8 ''get'') \<and>
   cp_offset pool_wide 4 = Some 15 \<and>
   get_cpool_at (cpool_bytes pool_wide) 0 4 = Some 21 \<and>
   cp_offset pool_wide 5 = Some 21"
  by code_simp

text \<open>
  C9. For an index of 0 or 1 the loop body never runs and the walker returns the
  pointer it was given, the record of the first entry.
\<close>

theorem get_cpool_at_first:
  "unat index \<le> 1 \<Longrightarrow> get_cpool_at cpool p index = Some p"
  by (simp add: get_cpool_at_def get_cpool_at_loop_done)

theorem get_cpool_at_first_witness:
  "unat (0 :: u2) \<le> 1 \<and> get_cpool_at [7, 0, 2] 0 0 = Some 0 \<and>
   unat (1 :: u2) \<le> 1 \<and> get_cpool_at [7, 0, 2] 0 1 = Some 0"
  using get_cpool_at_first [of 0 "[7, 0, 2]" 0] get_cpool_at_first [of 1 "[7, 0, 2]" 0]
  by simp

section \<open>Claims about the callback\<close>

text \<open>
  C10. While either cached handle is still \<open>NULL\<close>, the callback returns at once:
  the world is returned as it was, so no host function is called (no bytecode is
  fetched, no constant pool is read) and the exception's message is not written.
\<close>

theorem callback_without_handles:
  "NullPointerException ag = None \<or> detailMessage ag = None \<Longrightarrow>
     ExceptionCallback ag h location w = Some w"
  by (simp add: ExceptionCallback_def)

theorem callback_without_handles_witness:
  "(NullPointerException \<lparr>NullPointerException = Some 1, detailMessage = None\<rparr> = None \<or>
    detailMessage \<lparr>NullPointerException = Some 1, detailMessage = None\<rparr> = None) \<and>
   ExceptionCallback \<lparr>NullPointerException = Some 1, detailMessage = None\<rparr>
     \<lparr>IsInstanceOf = True, GetBytecodes = Some [190], GetConstantPool = Some []\<rparr> 0
     \<lparr>message_field = None, host_calls = []\<rparr>
   = Some \<lparr>message_field = None, host_calls = []\<rparr>"
  using callback_without_handles
    [of "\<lparr>NullPointerException = Some 1, detailMessage = None\<rparr>"
        "\<lparr>IsInstanceOf = True, GetBytecodes = Some [190], GetConstantPool = Some []\<rparr>" 0
        "\<lparr>message_field = None, host_calls = []\<rparr>"]
  by simp

text \<open>
  C6. When the fault offset is negative or not below the bytecode length, or the opcode
  at the offset has no template, the callback leaves the exception's message field as
  it was: the world differs from the original one only by the record of the calls to
  \<open>IsInstanceOf\<close>, \<open>GetBytecodes\<close> and \<open>Deallocate\<close>.
\<close>

theorem callback_no_mutation:
  assumes "GetBytecodes h = Some bytecodes"
    and "sint location < 0 \<or> int (length bytecodes) \<le> sint location \<or>
         get_exception_message (bytecodes ! nat (sint location)) = None"
  shows "\<exists>w'. ExceptionCallback ag h location w = Some w' \<and>
              message_field w' = message_field w \<and>
              (\<exists>cs. host_calls w' = host_calls w @ cs \<and>
                 set cs \<subseteq> {Call_IsInstanceOf, Call_GetBytecodes, Call_Deallocate_bytecodes})"
proof -
  have "\<exists>cs. ExceptionCallback ag h location w = Some (w\<lparr>host_calls := host_calls w @ cs\<rparr>) \<and>
              set cs \<subseteq> {Call_IsInstanceOf, Call_GetBytecodes, Call_Deallocate_bytecodes}"
  proof -
  consider (idle) "NullPointerException ag = None \<or> detailMessage ag = None"
    | (other) "NullPointerException ag \<noteq> None" "detailMessage ag \<noteq> None" "\<not> IsInstanceOf h"
    | (npe) "NullPointerException ag \<noteq> None" "detailMessage ag \<noteq> None" "IsInstanceOf h"
    by blast
  then show ?thesis
  proof cases
    case idle
    then have "ExceptionCallback ag h location w = Some (w\<lparr>host_calls := host_calls w @ []\<rparr>)"
      by (simp add: ExceptionCallback_def)
    then show ?thesis by (intro exI [of _ "[]"]) simp
  next
    case other
    then have "ExceptionCallback ag h location w =
        Some (w\<lparr>host_calls := host_calls w @ [Call_IsInstanceOf]\<rparr>)"
      by (auto simp add: ExceptionCallback_def called_def)
    then show ?thesis by (intro exI [of _ "[Call_IsInstanceOf]"]) simp
  next
    case npe
    with assms have "ExceptionCallback ag h location w =
        Some (w\<lparr>host_calls := host_calls w @
          [Call_IsInstanceOf, Call_GetBytecodes, Call_Deallocate_bytecodes]\<rparr>)"
      by (auto simp add: ExceptionCallback_def called_def Let_def)
    then show ?thesis
      by (intro exI [of _ "[Call_IsInstanceOf, Call_GetBytecodes, Call_Deallocate_bytecodes]"]) simp
  qed
  qed
  then obtain cs
    where r: "ExceptionCallback ag h location w = Some (w\<lparr>host_calls := host_calls w @ cs\<rparr>)"
      and cs: "set cs \<subseteq> {Call_IsInstanceOf, Call_GetBytecodes, Call_Deallocate_bytecodes}"
    by blast
  from cs have "\<exists>cs'. host_calls (w\<lparr>host_calls := host_calls w @ cs\<rparr>) = host_calls w @ cs' \<and>
      set cs' \<subseteq> {Call_IsInstanceOf, Call_GetBytecodes, Call_Deallocate_bytecodes}"
    by simp
  with r show ?thesis by simp
qed

theorem callback_no_mutation_witness:
  "GetBytecodes \<lparr>IsInstanceOf = True, GetBytecodes = Some [0, 190], GetConstantPool = None\<rparr>
     = Some [0, 190] \<and>
   get_exception_message ([0, 190] ! nat (sint (0 :: jlocation))) = None \<and>
   int (length [0 :: u1, 190]) \<le> sint (2 :: jlocation) \<and>
   message_field (the (ExceptionCallback \<lparr>NullPointerException = Some 1, detailMessage = Some 2\<rparr>
     \<lparr>IsInstanceOf = True, GetBytecodes = Some [0, 190], GetConstantPool = None\<rparr> 0
     \<lparr>message_field = Some ''original'', host_calls = []\<rparr>)) = Some ''original'' \<and>
   message_field (the (ExceptionCallback \<lparr>NullPointerException = Some 1, detailMessage = Some 2\<rparr>
     \<lparr>IsInstanceOf = True, GetBytecodes = Some [0, 190], GetConstantPool = None\<rparr> 2
     \<lparr>message_field = Some ''original'', host_calls = []\<rparr>)) = Some ''original''"
proof -
  let ?h = "\<lparr>IsInstanceOf = True, GetBytecodes = Some [0, 190], GetConstantPool = None\<rparr>"
  let ?ag = "\<lparr>NullPointerException = Some 1, detailMessage = Some 2\<rparr>"
  let ?w = "\<lparr>message_field = Some ''original'', host_calls = []\<rparr>"
  have b: "GetBytecodes ?h = Some [0, 190]" by simp
  have c0: "get_exception_message ([0, 190] ! nat (sint (0 :: jlocation))) = None"
    by (simp add: get_exception_message_def opc_defs)
  have c2: "int (length [0 :: u1, 190]) \<le> sint (2 :: jlocation)" by simp
  from callback_no_mutation [of ?h "[0, 190]" 0 ?ag ?w] b c0
  have r0: "message_field (the (ExceptionCallback ?ag ?h 0 ?w)) = Some ''original''"
    by auto
  from callback_no_mutation [of ?h "[0, 190]" 2 ?ag ?w] b c2
  have r2: "message_field (the (ExceptionCallback ?ag ?h 2 ?w)) = Some ''original''"
    by auto
  from b c0 c2 r0 r2 show ?thesis by blast
qed

text \<open>
  C8. For the sixteen array opcodes, arraylength, monitorenter and monitorexit the
  message written is the template rendered with the offset alone, and the outcome of
  the callback is the same whatever \<open>GetConstantPool\<close> would answer: the calls made
  are \<open>IsInstanceOf\<close>, \<open>GetBytecodes\<close>, \<open>NewStringUTF\<close>, \<open>SetObjectField\<close> and
  \<open>Deallocate\<close> of the bytecodes, never \<open>GetConstantPool\<close>.
\<close>

theorem non_symbol_message_ignores_cpool:
  assumes "GetBytecodes h = Some bytecodes"
    and "0 \<le> sint location" and "sint location < int (length bytecodes)"
    and "bytecodes ! nat (sint location) \<in> non_symbol_opcodes"
  shows "\<exists>m buf. get_exception_message (bytecodes ! nat (sint location)) = Some m \<and>
           sprintf 400 m [ArgInt (int_of_location location)] = Some buf \<and>
           (\<forall>cp. ExceptionCallback ag (h\<lparr>GetConstantPool := cp\<rparr>) location w =
              (if NullPointerException ag = None \<or> detailMessage ag = None then Some w
               else if IsInstanceOf h
               then Some (called Call_Deallocate_bytecodes (set_detail_message buf
                            (called Call_GetBytecodes (called Call_IsInstanceOf w))))
               else Some (called Call_IsInstanceOf w)))"
proof -
  from classify_non_symbol [OF assms(4)] obtain m
    where m: "get_exception_message (bytecodes ! nat (sint location)) = Some m"
      and mt: "m \<in> set non_symbol_templates" by blast
  from non_symbol_sprintf [OF mt] obtain buf
    where buf: "sprintf 400 m [ArgInt (int_of_location location)] = Some buf" by blast
  from mt have ns: "\<not> strstr m ''%s''" by (rule non_symbol_no_percent_s)
  have "ExceptionCallback ag (h\<lparr>GetConstantPool := cp\<rparr>) location w =
          (if NullPointerException ag = None \<or> detailMessage ag = None then Some w
           else if IsInstanceOf h
           then Some (called Call_Deallocate_bytecodes (set_detail_message buf
                        (called Call_GetBytecodes (called Call_IsInstanceOf w))))
           else Some (called Call_IsInstanceOf w))" for cp
    using assms(1-3) m buf ns
    by (simp add: ExceptionCallback_def format_message_def)
  with m buf show ?thesis by blast
qed

theorem non_symbol_message_ignores_cpool_witness:
  "GetBytecodes \<lparr>IsInstanceOf = True, GetBytecodes = Some [0, 0, 0, 0, 0, 0, 0, 79],
      GetConstantPool = None\<rparr> = Some [0, 0, 0, 0, 0, 0, 0, 79] \<and>
   [0, 0, 0, 0, 0, 0, 0, 79] ! nat (sint (7 :: jlocation)) \<in> non_symbol_opcodes \<and>
   ExceptionCallback \<lparr>NullPointerException = Some 1, detailMessage = Some 2\<rparr>
     \<lparr>IsInstanceOf = True, GetBytecodes = Some [0, 0, 0, 0, 0, 0, 0, 79],
        GetConstantPool = Some [1, 0, 3, 103, 101, 116]\<rparr> 7
     \<lparr>message_field = None, host_calls = []\<rparr> =
   ExceptionCallback \<lparr>NullPointerException = Some 1, detailMessage = Some 2\<rparr>
     \<lparr>IsInstanceOf = True, GetBytecodes = Some [0, 0, 0, 0, 0, 0, 0, 79],
        GetConstantPool = None\<rparr> 7
     \<lparr>message_field = None, host_calls = []\<rparr> \<and>
   ExceptionCallback \<lparr>NullPointerException = Some 1, detailMessage = Some 2\<rparr>
     \<lparr>IsInstanceOf = True, GetBytecodes = Some [0, 0, 0, 0, 0, 0, 0, 79],
        GetConstantPool = None\<rparr> 7
     \<lparr>message_field = None, host_calls = []\<rparr> =
   Some \<lparr>message_field = Some ''Store into null int array at bci 7'',
         host_calls = [Call_IsInstanceOf, Call_GetBytecodes,
           Call_NewStringUTF ''Store into null int array at bci 7'',
           Call_SetObjectField ''Store into null int array at bci 7'',
           Call_Deallocate_bytecodes]\<rparr>"
proof -
  let ?code = "[0, 0, 0, 0, 0, 0, 0, 79] :: u1 list"
  let ?h = "\<lparr>IsInstanceOf = True, GetBytecodes = Some ?code, GetConstantPool = None\<rparr>"
  let ?ag = "\<lparr>NullPointerException = Some 1, detailMessage = Some 2\<rparr>"
  let ?w = "\<lparr>message_field = None, host_calls = []\<rparr>"
  have b: "GetBytecodes ?h = Some ?code" by simp
  have lo: "0 \<le> sint (7 :: jlocation)" and hi: "sint (7 :: jlocation) < int (length ?code)"
    by simp_all
  have opc: "?code ! nat (sint (7 :: jlocation)) \<in> non_symbol_opcodes"
    by (simp add: non_symbol_opcodes_def array_store_opcodes_def opc_defs)
  from non_symbol_message_ignores_cpool [OF b lo hi opc, of ?ag ?w]
  obtain r where r: "\<And>cp. ExceptionCallback ?ag (?h\<lparr>GetConstantPool := cp\<rparr>) 7 ?w = r"
    by auto
  have same: "ExceptionCallback ?ag (?h\<lparr>GetConstantPool := Some [1, 0, 3, 103, 101, 116]\<rparr>) 7 ?w =
        ExceptionCallback ?ag (?h\<lparr>GetConstantPool := None\<rparr>) 7 ?w"
    by (simp only: r)
  have val: "ExceptionCallback ?ag ?h 7 ?w =
    Some \<lparr>message_field = Some ''Store into null int array at bci 7'',
         host_calls = [Call_IsInstanceOf, Call_GetBytecodes,
           Call_NewStringUTF ''Store into null int array at bci 7'',
           Call_SetObjectField ''Store into null int array at bci 7'',
           Call_Deallocate_bytecodes]\<rparr>"
    by code_simp
  from b opc same val show ?thesis by simp
qed

text \<open>
  C2, as the code has it. A failing \<open>GetConstantPool\<close> does not abort the callback:
  \<open>get_name_from_cpool\<close> answers the name \<open><unknown>\<close> and the message is written
  with it. The first theorem evaluates the callback for an invokevirtual whose class
  has no retrievable constant pool.
\<close>

theorem cpool_failure_still_writes:
  "GetConstantPool \<lparr>IsInstanceOf = True, GetBytecodes = Some [182, 0, 1],
      GetConstantPool = None\<rparr> = None \<and>
   ExceptionCallback \<lparr>NullPointerException = Some 1, detailMessage = Some 2\<rparr>
     \<lparr>IsInstanceOf = True, GetBytecodes = Some [182, 0, 1], GetConstantPool = None\<rparr> 0
     \<lparr>message_field = None, host_calls = []\<rparr> =
   Some \<lparr>message_field = Some ''Called method '<unknown>' on null object at bci 0'',
         host_calls = [Call_IsInstanceOf, Call_GetBytecodes,
           Call_GetMethodDeclaringClass, Call_GetConstantPool,
           Call_NewStringUTF ''Called method '<unknown>' on null object at bci 0'',
           Call_SetObjectField ''Called method '<unknown>' on null object at bci 0'',
           Call_Deallocate_bytecodes]\<rparr>"
  by code_simp

text \<open>
  C2 amended. When \<open>GetBytecodes\<close> fails the callback stops without writing the
  message field: the world differs only by the record of the calls to \<open>IsInstanceOf\<close>
  and \<open>GetBytecodes\<close>. When \<open>GetConstantPool\<close> fails, which is asked only for a
  getfield, putfield, invokevirtual, invokespecial or invokeinterface, the message
  is still synthesized, with the name \<open><unknown>\<close> in the template.
\<close>

theorem retrieval_failure:
  "(GetBytecodes h = None \<longrightarrow>
      (\<exists>cs. ExceptionCallback ag h location w = Some (w\<lparr>host_calls := host_calls w @ cs\<rparr>) \<and>
            set cs \<subseteq> {Call_IsInstanceOf, Call_GetBytecodes})) \<and>
   (GetConstantPool h = None \<and> GetBytecodes h = Some bytecodes \<and>
    NullPointerException ag \<noteq> None \<and> detailMessage ag \<noteq> None \<and> IsInstanceOf h \<and>
    0 \<le> sint location \<and> sint location < int (length bytecodes) \<and>
    bytecodes ! nat (sint location) \<in> symbol_opcodes \<longrightarrow>
      (\<exists>m buf. get_exception_message (bytecodes ! nat (sint location)) = Some m \<and>
         snprintf 400 m [ArgStr ''<unknown>'', ArgInt (int_of_location location)] = Some buf \<and>
         buf \<noteq> [] \<and>
         ExceptionCallback ag h location w =
           Some (called Call_Deallocate_bytecodes (set_detail_message buf
             (called Call_GetConstantPool (called Call_GetMethodDeclaringClass
               (called Call_GetBytecodes (called Call_IsInstanceOf w))))))))"
proof (intro conjI impI)
  assume nb: "GetBytecodes h = None"
  consider (idle) "NullPointerException ag = None \<or> detailMessage ag = None"
    | (other) "NullPointerException ag \<noteq> None" "detailMessage ag \<noteq> None" "\<not> IsInstanceOf h"
    | (npe) "NullPointerException ag \<noteq> None" "detailMessage ag \<noteq> None" "IsInstanceOf h"
    by blast
  then show "\<exists>cs. ExceptionCallback ag h location w = Some (w\<lparr>host_calls := host_calls w @ cs\<rparr>) \<and>
            set cs \<subseteq> {Call_IsInstanceOf, Call_GetBytecodes}"
  proof cases
    case idle
    then have "ExceptionCallback ag h location w = Some (w\<lparr>host_calls := host_calls w @ []\<rparr>)"
      by (simp add: ExceptionCallback_def)
    then show ?thesis by (intro exI [of _ "[]"]) simp
  next
    case other
    then have "ExceptionCallback ag h location w =
        Some (w\<lparr>host_calls := host_calls w @ [Call_IsInstanceOf]\<rparr>)"
      by (auto simp add: ExceptionCallback_def called_def)
    then show ?thesis by (intro exI [of _ "[Call_IsInstanceOf]"]) simp
  next
    case npe
    with nb have "ExceptionCallback ag h location w =
        Some (w\<lparr>host_calls := host_calls w @ [Call_IsInstanceOf, Call_GetBytecodes]\<rparr>)"
      by (auto simp add: ExceptionCallback_def called_def Let_def)
    then show ?thesis by (intro exI [of _ "[Call_IsInstanceOf, Call_GetBytecodes]"]) simp
  qed
next
  assume a: "GetConstantPool h = None \<and> GetBytecodes h = Some bytecodes \<and>
    NullPointerException ag \<noteq> None \<and> detailMessage ag \<noteq> None \<and> IsInstanceOf h \<and>
    0 \<le> sint location \<and> sint location < int (length bytecodes) \<and>
    bytecodes ! nat (sint location) \<in> symbol_opcodes"
  then have opc: "bytecodes ! nat (sint location) \<in> symbol_opcodes" by simp
  from classify_symbol [OF opc] obtain m
    where m: "get_exception_message (bytecodes ! nat (sint location)) = Some m"
      and mt: "m \<in> set symbol_templates" by blast
  from symbol_format [OF mt] obtain out
    where out: "format m [ArgStr ''<unknown>'', ArgInt (int_of_location location)] = Some out"
      and ne: "out \<noteq> []" by blast
  let ?buf = "take 399 out"
  have buf: "snprintf 400 m [ArgStr ''<unknown>'', ArgInt (int_of_location location)] = Some ?buf"
    using out by (simp add: snprintf_def)
  from ne have ne': "?buf \<noteq> []" by (cases out) simp_all
  from mt have ps: "strstr m ''%s''" by (rule symbol_has_percent_s)
  have "ExceptionCallback ag h location w =
           Some (called Call_Deallocate_bytecodes (set_detail_message ?buf
             (called Call_GetConstantPool (called Call_GetMethodDeclaringClass
               (called Call_GetBytecodes (called Call_IsInstanceOf w))))))"
    using a m buf ps
    by (auto simp add: ExceptionCallback_def format_message_def get_name_from_cpool_def Let_def)
  with m buf ne' show "\<exists>m buf. get_exception_message (bytecodes ! nat (sint location)) = Some m \<and>
         snprintf 400 m [ArgStr ''<unknown>'', ArgInt (int_of_location location)] = Some buf \<and>
         buf \<noteq> [] \<and>
         ExceptionCallback ag h location w =
           Some (called Call_Deallocate_bytecodes (set_detail_message buf
             (called Call_GetConstantPool (called Call_GetMethodDeclaringClass
               (called Call_GetBytecodes (called Call_IsInstanceOf w))))))"
    by blast
qed

theorem retrieval_failure_witness:
  "GetBytecodes \<lparr>IsInstanceOf = True, GetBytecodes = None, GetConstantPool = None\<rparr> = None \<and>
   ExceptionCallback \<lparr>NullPointerException = Some 1, detailMessage = Some 2\<rparr>
     \<lparr>IsInstanceOf = True, GetBytecodes = None, GetConstantPool = None\<rparr> 0
     \<lparr>message_field = None, host_calls = []\<rparr> =
     Some \<lparr>message_field = None, host_calls = [Call_IsInstanceOf, Call_GetBytecodes]\<rparr> \<and>
   [181, 0, 1] ! nat (sint (0 :: jlocation)) \<in> symbol_opcodes \<and>
   message_field (the (ExceptionCallback \<lparr>NullPointerException = Some 1, detailMessage = Some 2\<rparr>
     \<lparr>IsInstanceOf = True, GetBytecodes = Some [181, 0, 1], GetConstantPool = None\<rparr> 0
     \<lparr>message_field = None, host_calls = []\<rparr>)) =
     Some ''Put field '<unknown>' of null object at bci 0''"
proof -
  let ?ag = "\<lparr>NullPointerException = Some 1, detailMessage = Some 2\<rparr>"
  let ?h1 = "\<lparr>IsInstanceOf = True, GetBytecodes = None, GetConstantPool = None\<rparr>"
  let ?h2 = "\<lparr>IsInstanceOf = True, GetBytecodes = Some [181, 0, 1], GetConstantPool = None\<rparr>"
  let ?w = "\<lparr>message_field = None, host_calls = []\<rparr>"
  have opc: "[181, 0, 1] ! nat (sint (0 :: jlocation)) \<in> symbol_opcodes"
    by (simp add: symbol_opcodes_def opc_defs)
  have m: "get_exception_message ([181, 0, 1] ! nat (sint (0 :: jlocation))) =
      Some ''Put field '%s' of null object at bci %d''"
    by (simp add: get_exception_message_def opc_defs)
  have f: "snprintf 400 ''Put field '%s' of null object at bci %d''
      [ArgStr ''<unknown>'', ArgInt (int_of_location 0)] =
      Some ''Put field '<unknown>' of null object at bci 0''"
    by (simp add: snprintf_def int_of_location_def dec_int_def dec_nat.simps digit_char_def)
  from retrieval_failure [of ?h1 ?ag 0 ?w "[]"]
  have "\<exists>cs. ExceptionCallback ?ag ?h1 0 ?w = Some (?w\<lparr>host_calls := host_calls ?w @ cs\<rparr>) \<and>
            set cs \<subseteq> {Call_IsInstanceOf, Call_GetBytecodes}"
    by simp
  then obtain cs where cs: "ExceptionCallback ?ag ?h1 0 ?w = Some \<lparr>message_field = None, host_calls = cs\<rparr>"
    by auto
  have "ExceptionCallback ?ag ?h1 0 ?w =
      Some \<lparr>message_field = None, host_calls = [Call_IsInstanceOf, Call_GetBytecodes]\<rparr>"
    by (simp add: ExceptionCallback_def called_def)
  moreover
  from retrieval_failure [of ?h2 ?ag 0 ?w "[181, 0, 1]"] opc m f
  have "message_field (the (ExceptionCallback ?ag ?h2 0 ?w)) =
     Some ''Put field '<unknown>' of null object at bci 0''"
    by (auto simp add: set_detail_message_def)
  ultimately show ?thesis using opc by simp
qed



section \<open>Claims about the resolved name\<close>

text \<open>
  C3. The scenario of the README: a null receiver of \<open>get()\<close>, the invokevirtual at
  offset 19. The template for the invocations is \<open>Called method '%s' on null object
  at bci %d\<close> and the name in the constant pool is \<open>get\<close>, so the message written is
  \<open>Called method 'get' on null object at bci 19\<close>: the parentheses that the README
  shows after the name are not in the template.
\<close>

theorem called_method_get_message:
  "declared_name pool_get 6 = Some ''get'' \<and>
   ExceptionCallback \<lparr>NullPointerException = Some 1, detailMessage = Some 2\<rparr>
     \<lparr>IsInstanceOf = True, GetBytecodes = Some code_get,
        GetConstantPool = Some (cpool_bytes pool_get)\<rparr> 19
     \<lparr>message_field = None, host_calls = []\<rparr> =
   Some \<lparr>message_field = Some ''Called method 'get' on null object at bci 19'',
         host_calls = [Call_IsInstanceOf, Call_GetBytecodes,
           Call_GetMethodDeclaringClass, Call_GetConstantPool, Call_Deallocate_cpool,
           Call_NewStringUTF ''Called method 'get' on null object at bci 19'',
           Call_SetObjectField ''Called method 'get' on null object at bci 19'',
           Call_Deallocate_bytecodes]\<rparr> \<and>
   ''Called method 'get' on null object at bci 19'' \<noteq>
   ''Called method 'get()' on null object at bci 19''"
  by code_simp

text \<open>
  C1. In \<open>pool_wide\<close> the long constant takes the indices 1 and 2, and the operand 8
  of the invokevirtual denotes the Methodref of \<open>get\<close>, whose record starts at byte
  35. The walker counts one index per record: for index 8 it stops at byte 40, the
  record of index 9, and the three lookups end at the Utf8 \<open>baz\<close> and not at the
  declared name \<open>get\<close>.
\<close>

theorem wide_entry_shifts_resolved_name:
  "cp_entry_at pool_wide 8 = Some (CONSTANT_Methodref 7 6) \<and>
   declared_name pool_wide 8 = Some ''get'' \<and>
   cp_offset pool_wide 8 = Some 35 \<and>
   get_cpool_at (cpool_bytes pool_wide) 0 8 = Some 40 \<and>
   resolve_name (cpool_bytes pool_wide) code_wide 19 = Some ''baz'' \<and>
   ExceptionCallback \<lparr>NullPointerException = Some 1, detailMessage = Some 2\<rparr>
     \<lparr>IsInstanceOf = True, GetBytecodes = Some code_wide,
        GetConstantPool = Some (cpool_bytes pool_wide)\<rparr> 19
     \<lparr>message_field = None, host_calls = []\<rparr> =
   Some \<lparr>message_field = Some ''Called method 'baz' on null object at bci 19'',
         host_calls = [Call_IsInstanceOf, Call_GetBytecodes,
           Call_GetMethodDeclaringClass, Call_GetConstantPool, Call_Deallocate_cpool,
           Call_NewStringUTF ''Called method 'baz' on null object at bci 19'',
           Call_SetObjectField ''Called method 'baz' on null object at bci 19'',
           Call_Deallocate_bytecodes]\<rparr>"
  by code_simp

section \<open>Further properties of the resolver\<close>

text \<open>
  X1. On a pool in which every entry takes one logical index (no long or double) the
  walker returns, for every index from 1 to the number of entries, the record offset
  of the class-file format: the serialized lengths of the entries before it.
\<close>

theorem walker_exact_on_single_index_pools:
  assumes "list_all single_index_entry pool" and "1 \<le> unat index" and "unat index \<le> length pool"
  shows "get_cpool_at (cpool_bytes pool @ post) 0 index = cp_offset pool (unat index)"
  using assms by (rule walker_single_index)

theorem walker_exact_on_single_index_pools_witness:
  "list_all single_index_entry pool_get \<and> 1 \<le> unat (6 :: u2) \<and> unat (6 :: u2) \<le> length pool_get \<and>
   get_cpool_at (cpool_bytes pool_get @ []) 0 6 = Some 26 \<and> cp_offset pool_get (unat (6 :: u2)) = Some 26"
proof -
  have a: "list_all single_index_entry pool_get"
    by (simp add: pool_get_def single_index_entry_def utf8_def)
  have b: "1 \<le> unat (6 :: u2)" by simp
  have c: "unat (6 :: u2) \<le> length pool_get" by (simp add: pool_get_def)
  have d: "cp_offset pool_get (unat (6 :: u2)) = Some 26"
    by (simp add: pool_get_def utf8_def u2_bytes_def)
  from walker_exact_on_single_index_pools [OF a b c, of "[]"] d
  have "get_cpool_at (cpool_bytes pool_get @ []) 0 6 = Some 26" by simp
  with a b c d show ?thesis by blast
qed

text \<open>
  X2. On such a pool with zero-free Utf8 entries, whenever the operand after the
  opcode denotes a Fieldref, Methodref or InterfaceMethodref whose NameAndType names
  a Utf8, the resolver returns that declared name.
\<close>

theorem resolve_name_on_single_index_pools:
  assumes sp: "list_all single_index_entry pool"
    and nz: "list_all no_zero_byte pool"
    and operand: "get_u2 bytecodes (pc + 1) = Some operand"
    and dn: "declared_name pool operand = Some name"
  shows "resolve_name (cpool_bytes pool) bytecodes pc = Some name"
proof -
  let ?cpool = "cpool_bytes pool"
  from dn obtain ref c nt where ref: "cp_entry_at pool (unat operand) = Some ref"
    and kind: "ref = CONSTANT_Fieldref c nt \<or> ref = CONSTANT_Methodref c nt \<or>
               ref = CONSTANT_InterfaceMethodref c nt"
    and nn: "name_of_name_and_type pool nt = Some name"
    by (auto simp add: declared_name_def split: option.splits cp_info.splits)
  from nn obtain n d where nat: "cp_entry_at pool (unat nt) = Some (CONSTANT_NameAndType n d)"
    and un: "utf8_at pool n = Some name"
    by (auto simp add: name_of_name_and_type_def split: option.splits cp_info.splits)
  from un obtain bs where utf: "cp_entry_at pool (unat n) = Some (CONSTANT_Utf8 bs)"
    and name: "name = map (\<lambda>b. char_of (unat b)) bs"
    by (auto simp add: utf8_at_def split: option.splits cp_info.splits)
  from entry_located [OF sp ref] obtain pre1 post1
    where s1: "?cpool = pre1 @ cp_info_bytes ref @ post1"
      and w1: "get_cpool_at ?cpool 0 operand = Some (length pre1)" by blast
  from entry_located [OF sp nat] obtain pre2 post2
    where s2: "?cpool = pre2 @ cp_info_bytes (CONSTANT_NameAndType n d) @ post2"
      and w2: "get_cpool_at ?cpool 0 nt = Some (length pre2)" by blast
  from entry_located [OF sp utf] obtain pre3 post3
    where s3: "?cpool = pre3 @ cp_info_bytes (CONSTANT_Utf8 bs) @ post3"
      and w3: "get_cpool_at ?cpool 0 n = Some (length pre3)"
      and mem: "CONSTANT_Utf8 bs \<in> set pool" by blast
  from mem sp nz have len: "length bs < 65536" and zero: "0 \<notin> set bs"
    by (auto simp add: list_all_iff single_index_entry_def no_zero_byte_def)
  have r1: "get_u2 ?cpool (length pre1 + 3) = Some nt"
    unfolding s1 using kind by (intro get_u2_at) (auto simp add: u2_bytes_def)
  have r2: "get_u2 ?cpool (length pre2 + 1) = Some n"
    unfolding s2 by (intro get_u2_at) (simp add: u2_bytes_def)
  have r3: "get_u2 ?cpool (length pre3 + 1) = Some (word_of_nat (length bs))"
    unfolding s3 by (intro get_u2_at) (simp add: u2_bytes_def)
  have r4: "memcpy_from ?cpool (length pre3 + 3) (length bs) = Some bs"
    unfolding s3 by (intro memcpy_from_at) (simp_all add: u2_bytes_def)
  from operand w1 r1 w2 r2 w3 r3 r4 len zero name show ?thesis
    by (simp add: resolve_name_def unat_utf8_length c_string_no_zero)
qed

theorem resolve_name_on_single_index_pools_witness:
  "list_all single_index_entry pool_get \<and> list_all no_zero_byte pool_get \<and>
   get_u2 code_get (19 + 1) = Some 6 \<and> declared_name pool_get 6 = Some ''get'' \<and>
   resolve_name (cpool_bytes pool_get) code_get 19 = Some ''get''"
proof -
  have a: "list_all single_index_entry pool_get"
    by (simp add: pool_get_def single_index_entry_def utf8_def)
  have b: "list_all no_zero_byte pool_get"
    by (simp add: pool_get_def no_zero_byte_def utf8_def)
  have c: "get_u2 code_get (19 + 1) = Some 6" by code_simp
  have d: "declared_name pool_get 6 = Some ''get''" by code_simp
  from resolve_name_on_single_index_pools [OF a b c d] a b c d show ?thesis by blast
qed

end
